theory Spec2Isabelle
  imports Complex_Main
begin

section \<open>Frequency-domain plots: \<open>freqplot.py\<close>\<close>

text \<open>
  The module draws Bode, Nyquist and Gang-of-Four plots.  Its three functions
  \<open>bode\<close>, \<open>nyquist\<close> and \<open>gangof4\<close> are embedded below.

  Numbers: a double is the real number it stands for.  Where the rounding of a
  result decides what the program does next or what it draws, the rounding is written
  out: the base-10 logarithms (they are floored and ceiled for the default range, and
  they are the decibel values) and the product by 20 are rounded to the nearest
  double.  The other operations (the division by \<open>2 pi\<close>, the products with sine and
  cosine, the powers of ten of \<open>logspace\<close>) are taken exact.  Values that are not real
  numbers (\<open>-inf\<close>, complex numbers) are written out with the type \<open>npfloat\<close>.

  Effects: every call to an external collaborator that the caller can observe
  (\<open>sys.freqresp\<close> and the \<open>matplotlib.pyplot\<close> calls) is appended to a log of
  \<open>call\<close>s, in program order.  The log is passed in and returned, as the plotting
  surface is shared, mutable state that accumulates across calls.  An exception of a
  collaborator ends the function with \<open>Inl\<close> and leaves the log as it was at that
  moment.  The drawing calls themselves are recorded, not interpreted.
\<close>

subsection \<open>Data model\<close>

datatype error = ValueError | External string

text \<open>The triple \<open>(mag, phase, omega)\<close> that \<open>sys.freqresp(omega)\<close> returns.\<close>

type_synonym response = "real list \<times> real list \<times> real list"

text \<open>
  A linear system is owned by the caller; the module reads its attributes \<open>poles\<close>
  and \<open>zeros\<close> and calls its method \<open>freqresp\<close>, which may raise.
\<close>

record system =
  poles :: "complex list"
  zeros :: "complex list"
  freqresp :: "real list \<Rightarrow> error + response"

text \<open>
  The first argument of \<open>bode\<close> is either one system (an object without
  \<open>__iter__\<close>) or an iterable of systems.
\<close>

datatype syslist_arg = Single system | Collection "system list"

text \<open>An argument of \<open>feedback\<close>: the Python number \<open>1\<close> or a system.\<close>

datatype operand = Scalar int | Sys system

text \<open>
  An element of the array that \<open>20*sp.log10(mag)\<close> gives: a double, \<open>-inf\<close>, or an
  element of a complex array (its value is not modelled).
\<close>

datatype npfloat = Fin real | NegInf | ComplexValued

text \<open>The observable calls: \<open>sys.freqresp(omega)\<close> and the \<open>plt\<close> functions used.\<close>

datatype call =
    Freqresp "real list"
  | Subplot nat
  | Loglog "real list" "real list"
  | Semilogx "real list" "npfloat list"
  | Plot "real list" "real list" string
  | Xlabel string
  | Ylabel string
  | Grid bool "string option"
  | Hold bool

subsection \<open>External numeric library\<close>

text \<open>
  \<open>linspace(start, stop, num)\<close>: \<open>num\<close> evenly spaced samples over the closed
  interval, and \<open>logspace(start, stop)\<close>: \<open>10 ** linspace(start, stop, 50)\<close>
  (numpy's defaults \<open>num = 50\<close>, \<open>endpoint = True\<close>, \<open>base = 10\<close>).
\<close>

definition linspace :: "real \<Rightarrow> real \<Rightarrow> nat \<Rightarrow> real list" where
  "linspace start stop num =
     map (\<lambda>i. start + real i * ((stop - start) / real (num - 1))) [0..<num]"

definition logspace :: "real \<Rightarrow> real \<Rightarrow> real list" where
  "logspace start stop = map (\<lambda>e. 10 powr e) (linspace start stop 50)"

text \<open>
  \<open>sp.multiply\<close> on one-dimensional arrays: elementwise, an array of length one is
  broadcast, any other mismatch of the lengths raises \<open>ValueError\<close>.
\<close>

definition multiply :: "real list \<Rightarrow> real list \<Rightarrow> error + real list" where
  "multiply xs ys =
     (if length xs = length ys then Inr (map2 (*) xs ys)
      else if length xs = 1 then Inr (map (\<lambda>y. hd xs * y) ys)
      else if length ys = 1 then Inr (map (\<lambda>x. x * hd ys) xs)
      else Inl ValueError)"

text \<open>
  Rounding to the nearest integer, ties to the even one, and rounding of a real number
  to the nearest double (53 significant bits, ties to even).  Overflow and subnormal
  numbers are left out: the logarithm of a positive double lies between \<open>-324\<close> and
  \<open>309\<close>, and unless it is \<open>0\<close> it is farther from \<open>0\<close> than \<open>2 ^ -55\<close>.
\<close>

definition rne :: "real \<Rightarrow> int" where
  "rne t =
     (let f = \<lfloor>t\<rfloor>; r = t - of_int f
      in if r < 1 / 2 then f else if 1 / 2 < r then f + 1 else if even f then f else f + 1)"

definition double_round :: "real \<Rightarrow> real" where
  "double_round x =
     (if x = 0 then 0
      else (let e = \<lfloor>log 2 \<bar>x\<bar>\<rfloor>; u = 2 powr (of_int e - 52)
            in sgn x * (of_int (rne (\<bar>x\<bar> / u)) * u)))"

text \<open>
  \<open>log10\<close> of a positive double, as numpy and the C library compute it: the result
  is a double, taken here as the one nearest to the exact logarithm.
\<close>

definition log10_double :: "real \<Rightarrow> real" where
  "log10_double x = double_round (log 10 x)"

text \<open>
  \<open>20*sp.log10(mag)\<close> on one magnitude.  \<open>sp.log10\<close> is the \<open>log10\<close> of
  \<open>numpy.lib.scimath\<close>: it is \<open>-inf\<close> at \<open>0\<close>, and the factor \<open>20\<close> keeps that;
  below \<open>0\<close> it is a complex number.
\<close>

definition dB_of :: "real \<Rightarrow> npfloat" where
  "dB_of mag =
     (if 0 < mag then Fin (double_round (20 * log10_double mag))
      else if mag = 0 then NegInf else ComplexValued)"

text \<open>
  \<open>20*sp.log10(mag)\<close> on the array: when some magnitude is negative, \<open>scimath\<close>
  converts the whole array to complex numbers first.
\<close>

definition dB_array :: "real list \<Rightarrow> npfloat list" where
  "dB_array mag =
     (if list_ex (\<lambda>m. m < 0) mag then map (\<lambda>_. ComplexValued) mag else map dB_of mag)"

text \<open>
  matplotlib reads the three-digit argument of \<open>subplot\<close> as rows, columns and the
  index of the cell, counted from 1 along the rows: the result is
  \<open>(rows, columns, row, column)\<close> with row and column counted from 0 at the top left.
\<close>

definition subplot_cell :: "nat \<Rightarrow> nat \<times> nat \<times> nat \<times> nat" where
  "subplot_cell code =
     (let nrows = code div 100; ncols = (code div 10) mod 10; idx = code mod 10
      in (nrows, ncols, (idx - 1) div ncols, (idx - 1) mod ncols))"

subsection \<open>\<open>bode\<close>\<close>

text \<open>
  Lines 95 to 99: the magnitudes of the poles and of the zeros of every system,
  appended to one array in the order of the loop.
\<close>

definition features_of :: "system list \<Rightarrow> real list" where
  "features_of syslist =
     foldl (\<lambda>features sys. (features @ map cmod (poles sys)) @ map cmod (zeros sys))
       [] syslist"

text \<open>Lines 93 to 112: the frequency range chosen when \<open>omega\<close> is \<open>None\<close>.\<close>

definition default_omega :: "system list \<Rightarrow> real list" where
  "default_omega syslist =
     (let features = features_of syslist;
          features = filter (\<lambda>f. f \<noteq> 0) features;
          features = (if length features = 0 then [1] else features);
          features = map log10_double features
      in logspace (real_of_int \<lfloor>Min (set features)\<rfloor> - 1)
                  (real_of_int \<lceil>Max (set features)\<rceil> + 1))"

text \<open>
  \<open>unwrap\<close> comes from \<open>ctrlutil\<close>, which is not part of this file: it is a
  parameter of \<open>bode\<close>, and it may raise.
\<close>

type_synonym unwrap_fn = "real list \<Rightarrow> real \<Rightarrow> error + real list"

text \<open>
  Lines 125 to 152: the drawing calls of one pass of the loop, for the values of
  \<open>omega\<close>, \<open>mag\<close> and \<open>phase\<close> at that point.
\<close>

definition bode_draw ::
  "bool \<Rightarrow> bool \<Rightarrow> real list \<Rightarrow> real list \<Rightarrow> real list \<Rightarrow> call list" where
  "bode_draw dB Hz omega mag phase =
     [Subplot 211] @
     (if dB then [Semilogx omega (dB_array mag), Ylabel ''Magnitude (dB)'']
      else [Loglog omega mag, Ylabel ''Magnitude'']) @
     [Grid True None, Grid True (Some ''minor''), Hold True,
      Subplot 212, Semilogx omega (map Fin phase), Hold True,
      Grid True None, Grid True (Some ''minor''), Ylabel ''Phase (deg)'',
      (if Hz then Xlabel ''Frequency (Hz)'' else Xlabel ''Frequency (rad/sec)'')]"

text \<open>
  Lines 114 to 152: the loop over the systems.  The variable \<open>omega\<close> is assigned
  in the loop (by the unpacking of \<open>freqresp\<close>'s result and by the conversion to Hz),
  so its value is carried from one pass to the next.
\<close>

fun bode_loop ::
  "unwrap_fn \<Rightarrow> system list \<Rightarrow> real list \<Rightarrow> bool \<Rightarrow> bool \<Rightarrow> call list
     \<Rightarrow> call list \<times> (error + real list)" where
  "bode_loop unwrap [] omega dB Hz tr = (tr, Inr omega)"
| "bode_loop unwrap (sys # rest) omega dB Hz tr =
     (case freqresp sys omega of
        Inl e \<Rightarrow> (tr @ [Freqresp omega], Inl e)
      | Inr (mag, phase, omega1) \<Rightarrow>
          (let omega2 = (if Hz then map (\<lambda>w. w / (2 * pi)) omega1 else omega1)
           in case unwrap (map (\<lambda>p. p * 180 / pi) phase) 360 of
                Inl e \<Rightarrow> (tr @ [Freqresp omega], Inl e)
              | Inr phase1 \<Rightarrow>
                  bode_loop unwrap rest omega2 dB Hz
                    (tr @ [Freqresp omega] @ bode_draw dB Hz omega2 mag phase1)))"

definition bode ::
  "unwrap_fn \<Rightarrow> syslist_arg \<Rightarrow> real list option \<Rightarrow> bool \<Rightarrow> bool \<Rightarrow> call list
     \<Rightarrow> call list \<times> (error + nat \<times> nat)" where
  "bode unwrap syslist omega dB Hz tr =
     (let syslist = (case syslist of Single sys \<Rightarrow> [sys] | Collection l \<Rightarrow> l);
          omega = (case omega of None \<Rightarrow> default_omega syslist | Some w \<Rightarrow> w)
      in case bode_loop unwrap syslist omega dB Hz tr of
           (tr1, Inl e) \<Rightarrow> (tr1, Inl e)
         | (tr1, Inr _) \<Rightarrow> (tr1, Inr (211, 212)))"

subsection \<open>\<open>nyquist\<close>\<close>

definition nyquist ::
  "system \<Rightarrow> real list option \<Rightarrow> call list \<Rightarrow> call list \<times> (error + unit)" where
  "nyquist sys omega tr =
     (let omega = (case omega of None \<Rightarrow> logspace (-2) 2 | Some w \<Rightarrow> w)
      in case freqresp sys omega of
           Inl e \<Rightarrow> (tr @ [Freqresp omega], Inl e)
         | Inr (mag, phase, omega1) \<Rightarrow>
             (case multiply mag (map cos phase) of
                Inl e \<Rightarrow> (tr @ [Freqresp omega], Inl e)
              | Inr x \<Rightarrow>
                  (case multiply mag (map sin phase) of
                     Inl e \<Rightarrow> (tr @ [Freqresp omega], Inl e)
                   | Inr y \<Rightarrow>
                       (tr @ [Freqresp omega,
                              Plot x y ''-'',
                              Plot x (map uminus y) ''--'',
                              Plot [-1] [0] ''+k''], Inr ()))))"

subsection \<open>\<open>gangof4\<close>\<close>

text \<open>
  The product of two systems (\<open>__mul__\<close> of the system class) and \<open>feedback\<close> (from
  \<open>bdalg\<close>) are not part of this file: they are parameters, and they may raise.
  \<open>feedback\<close> is called with two arguments, so the sign of the loop is the one that
  \<open>bdalg\<close> takes when none is given.
\<close>

type_synonym mul_fn = "system \<Rightarrow> system \<Rightarrow> error + system"
type_synonym feedback_fn = "operand \<Rightarrow> operand \<Rightarrow> error + system"

text \<open>
  Each of the four panels: the system is built, queried at the current \<open>omega\<close>, and
  its magnitude drawn on log-log axes in the given cell.  The \<open>omega\<close> that
  \<open>freqresp\<close> returns is the one the next panel is queried at.
\<close>

definition panel ::
  "error + system \<Rightarrow> nat \<Rightarrow> real list \<Rightarrow> call list \<Rightarrow> call list \<times> (error + real list)" where
  "panel G code omega tr =
     (case G of
        Inl e \<Rightarrow> (tr, Inl e)
      | Inr g \<Rightarrow>
          (case freqresp g omega of
             Inl e \<Rightarrow> (tr @ [Freqresp omega], Inl e)
           | Inr (mag, phase, omega1) \<Rightarrow>
               (tr @ [Freqresp omega, Subplot code, Loglog omega1 mag], Inr omega1)))"

definition gangof4 ::
  "mul_fn \<Rightarrow> feedback_fn \<Rightarrow> system \<Rightarrow> system \<Rightarrow> real list option \<Rightarrow> call list
     \<Rightarrow> call list \<times> (error + unit)" where
  "gangof4 mul feedback P C omega tr =
     (let omega = (case omega of None \<Rightarrow> logspace (-2) 2 | Some w \<Rightarrow> w)
      in case mul P C of
           Inl e \<Rightarrow> (tr, Inl e)
         | Inr L \<Rightarrow>
        (case feedback (Scalar 1) (Sys L) of
           Inl e \<Rightarrow> (tr, Inl e)
         | Inr S \<Rightarrow>
        (case mul L S of
           Inl e \<Rightarrow> (tr, Inl e)
         | Inr T \<Rightarrow>
        (case panel (Inr T) 221 omega tr of
           (tr1, Inl e) \<Rightarrow> (tr1, Inl e)
         | (tr1, Inr omega1) \<Rightarrow>
        (case panel (mul P S) 222 omega1 tr1 of
           (tr2, Inl e) \<Rightarrow> (tr2, Inl e)
         | (tr2, Inr omega2) \<Rightarrow>
        (case panel (mul C S) 223 omega2 tr2 of
           (tr3, Inl e) \<Rightarrow> (tr3, Inl e)
         | (tr3, Inr omega3) \<Rightarrow>
        (case panel (Inr S) 224 omega3 tr3 of
           (tr4, Inl e) \<Rightarrow> (tr4, Inl e)
         | (tr4, Inr omega4) \<Rightarrow> (tr4, Inr ()))))))))"

subsection \<open>Reading the log\<close>

text \<open>The frequency vectors passed to \<open>freqresp\<close>, in the order of the calls.\<close>

definition queries :: "call list \<Rightarrow> real list list" where
  "queries tr = concat (map (\<lambda>c. case c of Freqresp w \<Rightarrow> [w] | _ \<Rightarrow> []) tr)"

text \<open>The frequency vectors drawn on a logarithmic axis, in the order of the calls.\<close>

definition plotted_freqs :: "call list \<Rightarrow> real list list" where
  "plotted_freqs tr =
     concat (map (\<lambda>c. case c of Loglog x _ \<Rightarrow> [x] | Semilogx x _ \<Rightarrow> [x] | _ \<Rightarrow> []) tr)"

subsection \<open>Example systems and collaborators\<close>

text \<open>
  Concrete inputs for the examples below.  \<open>gain k\<close> is a static gain: no poles, no
  zeros, magnitude \<open>\<bar>k\<bar>\<close> and phase \<open>0\<close> at every frequency, and its \<open>freqresp\<close>
  returns the frequencies it was given.
\<close>

definition gain :: "real \<Rightarrow> system" where
  "gain k = \<lparr>poles = [], zeros = [],
             freqresp = (\<lambda>w. Inr (map (\<lambda>_. \<bar>k\<bar>) w, map (\<lambda>_. 0) w, w))\<rparr>"

definition integrator :: system where
  "integrator = \<lparr>poles = [0], zeros = [],
             freqresp = (\<lambda>w. Inr (map (\<lambda>x. 1 / x) w, map (\<lambda>_. - pi / 2) w, w))\<rparr>"

definition sys_two_poles :: system where
  "sys_two_poles =
     \<lparr>poles = [-1, -10], zeros = [],
      freqresp = (\<lambda>w. Inr (map (\<lambda>_. 1) w, map (\<lambda>_. 0) w, w))\<rparr>"


text \<open>An \<open>unwrap\<close> that returns the angles as they are.\<close>

definition no_unwrap :: unwrap_fn where
  "no_unwrap angle period = Inr angle"

text \<open>
  The product of two static gains, read off their responses at 1 rad/s, and a
  \<open>feedback\<close> that returns the static gain \<open>1/7\<close> whatever it is given.
\<close>

definition series_gain :: mul_fn where
  "series_gain a b =
     (case (freqresp a [1], freqresp b [1]) of
        (Inr (ma, _, _), Inr (mb, _, _)) \<Rightarrow> Inr (gain (hd ma * hd mb))
      | _ \<Rightarrow> Inl (External ''series''))"

definition const_feedback :: feedback_fn where
  "const_feedback a b = Inr (gain (1 / 7))"

section \<open>Properties\<close>

subsection \<open>\<open>logspace\<close>\<close>

lemma length_logspace: "length (logspace a b) = 50"
  by (simp add: logspace_def linspace_def)

lemma hd_logspace: "hd (logspace a b) = 10 powr a"
  by (simp add: logspace_def linspace_def hd_map upt_conv_Cons)

lemma last_logspace: "last (logspace a b) = 10 powr b"
proof -
  have "a + 49 * ((b - a) / 49) = b" by argo
  then show ?thesis by (simp add: logspace_def linspace_def last_map)
qed

lemma logspace_bounds:
  assumes "a \<le> b" and "w \<in> set (logspace a b)"
  shows "10 powr a \<le> w \<and> w \<le> 10 powr b"
proof -
  from assms(2) obtain i :: nat
    where i: "i < 50" and w: "w = 10 powr (a + real i * ((b - a) / 49))"
    by (auto simp: logspace_def linspace_def)
  have "0 \<le> real i * ((b - a) / 49)" using assms(1) by simp
  moreover have "real i * ((b - a) / 49) \<le> 49 * ((b - a) / 49)"
    using i assms(1) by (intro mult_right_mono) auto
  ultimately show ?thesis unfolding w by simp
qed

lemma Min_logspace: "a \<le> b \<Longrightarrow> Min (set (logspace a b)) = 10 powr a"
proof (rule Min_eqI)
  show "finite (set (logspace a b))" by simp
  show "\<And>y. a \<le> b \<Longrightarrow> y \<in> set (logspace a b) \<Longrightarrow> 10 powr a \<le> y"
    using logspace_bounds by blast
  have "logspace a b \<noteq> []" using length_logspace [of a b] by auto
  then have "hd (logspace a b) \<in> set (logspace a b)" by simp
  then show "10 powr a \<in> set (logspace a b)" by (simp add: hd_logspace)
qed

lemma logspace_neq: "a \<noteq> c \<Longrightarrow> logspace a b \<noteq> logspace c d"
proof
  assume ac: "a \<noteq> c" and "logspace a b = logspace c d"
  then have "hd (logspace a b) = hd (logspace c d)" by simp
  then have "(10::real) powr a = 10 powr c" by (simp add: hd_logspace)
  then show False using ac by (simp add: powr_inj)
qed

lemma powr_m1: "(10::real) powr (-1) = 1 / 10"
  by (simp add: powr_minus_divide)

lemma powr_m2: "(10::real) powr (-2) = 1 / 100"
  by (simp add: powr_minus_divide)

subsection \<open>Rounding to the nearest double\<close>



lemma rne_near:
  assumes "of_int k \<le> t" and "t < of_int k + 1 / 2"
  shows "rne t = k"
proof -
  have "\<lfloor>t\<rfloor> = k" using assms by linarith
  then show ?thesis using assms by (simp add: rne_def Let_def)
qed




lemma double_round_0: "double_round 0 = 0"
  by (simp add: double_round_def)


lemma double_round_pos:
  assumes "0 < x"
  shows "double_round x
           = of_int (rne (x / 2 powr (of_int \<lfloor>log 2 x\<rfloor> - 52))) * 2 powr (of_int \<lfloor>log 2 x\<rfloor> - 52)"
  using assms by (simp add: double_round_def Let_def)


text \<open>Rounding a value in a known binade, near a known multiple of the unit.\<close>

lemma double_round_near:
  fixes e n :: int
  assumes "2 powr (of_int e) \<le> x" and "x < 2 powr (of_int e + 1)"
    and "of_int n * 2 powr (of_int e - 52) \<le> x"
    and "x < (of_int n + 1 / 2) * 2 powr (of_int e - 52)"
  shows "double_round x = of_int n * 2 powr (of_int e - 52)"
proof -
  have xpos: "0 < x" using assms(1) by (smt (verit) powr_gt_zero)
  have fl: "\<lfloor>log 2 x\<rfloor> = e"
    using floor_log_eq_powr_iff [of x 2 e] xpos assms(1,2) by simp
  define u :: real where "u = 2 powr (of_int e - 52)"
  have upos: "0 < u" by (simp add: u_def)
  have "of_int n \<le> x / u" using assms(3) upos by (simp add: u_def pos_le_divide_eq)
  moreover have "x / u < of_int n + 1 / 2"
    using assms(4) upos by (simp add: u_def pos_divide_less_eq)
  ultimately have "rne (x / u) = n" by (rule rne_near)
  then show ?thesis using xpos by (simp add: double_round_pos fl u_def)
qed









lemma double_round_exact:
  fixes e n :: int
  assumes "2 powr (of_int e) \<le> x" and "x < 2 powr (of_int e + 1)"
    and "x = of_int n * 2 powr (of_int e - 52)"
  shows "double_round x = x"
proof -
  have "x < (of_int n + 1 / 2) * 2 powr (of_int e - 52)"
    unfolding assms(3) by (simp add: algebra_simps)
  with assms show ?thesis using double_round_near [of e x n] by simp
qed

lemma u0: "(2::real) powr (of_int 0 - 52) = 1 / 2 ^ 52"
  by (simp add: powr_minus_divide)

lemma double_round_1: "double_round 1 = 1"
proof (rule double_round_exact [of 0 1 "2 ^ 52"])
  show "(2::real) powr of_int 0 \<le> 1" by simp
  show "(1::real) < 2 powr (of_int 0 + 1)" by simp
  show "(1::real) = of_int (2 ^ 52) * 2 powr (of_int 0 - 52)" unfolding u0 by simp
qed







lemma log10_double_1: "log10_double 1 = 0"
  by (simp add: log10_double_def double_round_0)

lemma log10_double_10: "log10_double 10 = 1"
  by (simp add: log10_double_def double_round_1)







subsection \<open>The default range of \<open>bode\<close>\<close>

lemma set_foldl_features:
  "set (foldl (\<lambda>features sys. (features @ map cmod (poles sys)) @ map cmod (zeros sys))
          acc syslist)
     = set acc \<union> (\<Union>sys\<in>set syslist. cmod ` set (poles sys) \<union> cmod ` set (zeros sys))"
  by (induction syslist arbitrary: acc) auto

lemma set_features_of:
  "set (features_of syslist)
     = (\<Union>sys\<in>set syslist. cmod ` set (poles sys) \<union> cmod ` set (zeros sys))"
  unfolding features_of_def set_foldl_features by simp

lemma default_omega_eq:
  "default_omega syslist =
     (let fs = filter (\<lambda>f. f \<noteq> 0) (features_of syslist);
          ls = map log10_double (if fs = [] then [1] else fs)
      in logspace (real_of_int \<lfloor>Min (set ls)\<rfloor> - 1) (real_of_int \<lceil>Max (set ls)\<rceil> + 1))"
  by (simp add: default_omega_def Let_def)

lemma bode_default:
  "bode unwrap (Collection syslist) None dB Hz tr
     = bode unwrap (Collection syslist) (Some (default_omega syslist)) dB Hz tr"
  by (simp add: bode_def)

lemma bode_single_default:
  "bode unwrap (Single sys) None dB Hz tr
     = bode unwrap (Single sys) (Some (default_omega [sys])) dB Hz tr"
  by (simp add: bode_def Let_def)

lemma default_omega_poles_1_10:
  assumes "poles sys = [-1, -10]" and "zeros sys = []"
  shows "default_omega [sys] = logspace (-1) 2"
  using assms
  by (simp add: default_omega_eq features_of_def Let_def log10_double_1 log10_double_10)

lemma features_all_zero:
  assumes "\<forall>sys \<in> set syslist.
             (\<forall>p \<in> set (poles sys). p = 0) \<and> (\<forall>z \<in> set (zeros sys). z = 0)"
  shows "filter (\<lambda>f. f \<noteq> 0) (features_of syslist) = []"
proof -
  have "\<forall>f \<in> set (features_of syslist). f = 0"
    using assms unfolding set_features_of by auto
  then show ?thesis by (simp add: filter_empty_conv)
qed





text \<open>
  C4.  When every pole and every zero of every system is \<open>0\<close> (in particular when
  there are none), the range that \<open>bode\<close> chooses for an absent \<open>omega\<close> is
  \<open>logspace(-1, 1)\<close>: 50 samples, the first \<open>0.1\<close> and the last \<open>10\<close>.
\<close>

theorem featureless_default_sweep:
  assumes "\<forall>sys \<in> set syslist.
             (\<forall>p \<in> set (poles sys). p = 0) \<and> (\<forall>z \<in> set (zeros sys). z = 0)"
  shows "default_omega syslist = logspace (-1) 1
       \<and> hd (default_omega syslist) = 1 / 10
       \<and> last (default_omega syslist) = 10
       \<and> length (default_omega syslist) = 50
       \<and> bode unwrap (Collection syslist) None dB Hz tr
           = bode unwrap (Collection syslist) (Some (logspace (-1) 1)) dB Hz tr"
proof -
  have d: "default_omega syslist = logspace (-1) 1"
    using features_all_zero [OF assms] by (simp add: default_omega_eq log10_double_1)
  show ?thesis
    using bode_default [of unwrap syslist dB Hz tr]
    by (simp add: d hd_logspace last_logspace length_logspace powr_m1)
qed

text \<open>The theorem at an integrator (one pole at the origin) and a gain.\<close>

theorem featureless_default_sweep_witness:
  "default_omega [integrator, gain 2] = logspace (-1) 1
   \<and> hd (default_omega [integrator, gain 2]) = 1 / 10
   \<and> last (default_omega [integrator, gain 2]) = 10"
proof -
  have h: "\<forall>sys \<in> set [integrator, gain 2].
             (\<forall>p \<in> set (poles sys). p = 0) \<and> (\<forall>z \<in> set (zeros sys). z = 0)"
    by (simp add: integrator_def gain_def)
  show ?thesis
    using featureless_default_sweep [OF h, of no_unwrap False False "[]"] by blast
qed

subsection \<open>The log\<close>

lemma queries_append: "queries (xs @ ys) = queries xs @ queries ys"
  by (simp add: queries_def)

lemma queries_bode_draw: "queries (bode_draw dB Hz omega mag phase) = []"
  by (simp add: queries_def bode_draw_def)

lemma queries_Freqresp: "queries (Freqresp w # tr) = w # queries tr"
  by (simp add: queries_def)

lemma queries_Nil: "queries [] = []"
  by (simp add: queries_def)

lemma plotted_freqs_bode_draw:
  "plotted_freqs (bode_draw dB Hz omega mag phase) = [omega, omega]"
  by (simp add: bode_draw_def plotted_freqs_def)

lemma nyquist_queries:
  "queries (fst (nyquist sys omega_arg tr))
     = queries tr @ [case omega_arg of None \<Rightarrow> logspace (-2) 2 | Some w \<Rightarrow> w]"
  by (simp add: nyquist_def Let_def queries_def split: sum.splits prod.splits)

lemma bode_single_queries:
  assumes "freqresp sys omega = Inr (mag, phase, omega1)"
  shows "queries (fst (bode unwrap (Single sys) (Some omega) dB Hz tr)) = queries tr @ [omega]"
proof (cases "unwrap (map (\<lambda>p. p * 180 / pi) phase) 360")
  case (Inl e)
  then show ?thesis using assms
    by (simp add: bode_def Let_def queries_append queries_Freqresp queries_Nil)
next
  case (Inr phase1)
  then show ?thesis using assms
    by (simp add: bode_def Let_def queries_append queries_Freqresp queries_Nil queries_bode_draw)
qed

subsection \<open>The default range on the example with two poles\<close>

lemma default_omega_two_poles: "default_omega [sys_two_poles] = logspace (-1) 2"
  by (rule default_omega_poles_1_10) (simp_all add: sys_two_poles_def)

text \<open>
  C3, as stated, fails.  For the system with poles \<open>-1\<close> and \<open>-10\<close> and no zeros,
  \<open>bode\<close> with no \<open>omega\<close> queries the system once, at the default range, and the
  smallest frequency of that range is \<open>0.1\<close>, not \<open>0.01\<close>: the logarithms of the
  features are \<open>0\<close> and \<open>1\<close>, so the lower exponent is \<open>floor 0 - 1 = -1\<close>.
\<close>

theorem two_poles_sweep_counterexample:
  "queries (fst (bode no_unwrap (Single sys_two_poles) None False False []))
     = [default_omega [sys_two_poles]]
   \<and> Min (set (default_omega [sys_two_poles])) = 1 / 10
   \<and> Min (set (default_omega [sys_two_poles])) \<noteq> 1 / 100"
proof -
  have f: "freqresp sys_two_poles (default_omega [sys_two_poles])
             = Inr (map (\<lambda>_. 1) (default_omega [sys_two_poles]),
                    map (\<lambda>_. 0) (default_omega [sys_two_poles]),
                    default_omega [sys_two_poles])"
    by (simp add: sys_two_poles_def)
  have q: "queries (fst (bode no_unwrap (Single sys_two_poles) None False False []))
     = [default_omega [sys_two_poles]]"
    using bode_single_queries [OF f, of no_unwrap False False "[]"]
    by (simp add: bode_single_default queries_Nil)
  have m: "Min (set (default_omega [sys_two_poles])) = 1 / 10"
    by (simp add: default_omega_two_poles Min_logspace powr_m1)
  show ?thesis using q m by simp
qed

text \<open>
  C3, amended.  For a single system with poles \<open>-1\<close> and \<open>-10\<close> and no zeros, the
  range that \<open>bode\<close> chooses for an absent \<open>omega\<close> is \<open>logspace(-1, 2)\<close>: 50
  samples from \<open>0.1\<close> (one decade below the smallest feature, 1) to \<open>100\<close> (one
  decade above the largest feature, 10).
\<close>

theorem two_poles_default_sweep:
  assumes "poles sys = [-1, -10]" and "zeros sys = []"
  shows "default_omega [sys] = logspace (-1) 2
       \<and> hd (default_omega [sys]) = 1 / 10
       \<and> last (default_omega [sys]) = 100
       \<and> length (default_omega [sys]) = 50
       \<and> bode unwrap (Single sys) None dB Hz tr
           = bode unwrap (Single sys) (Some (logspace (-1) 2)) dB Hz tr"
  using default_omega_poles_1_10 [OF assms] bode_single_default [of unwrap sys dB Hz tr]
  by (simp add: hd_logspace last_logspace length_logspace powr_m1)

text \<open>The theorem at the example system with these poles.\<close>

theorem two_poles_default_sweep_witness:
  "poles sys_two_poles = [-1, -10] \<and> zeros sys_two_poles = []
   \<and> hd (default_omega [sys_two_poles]) = 1 / 10
   \<and> last (default_omega [sys_two_poles]) = 100"
proof -
  have p: "poles sys_two_poles = [-1, -10]" and z: "zeros sys_two_poles = []"
    by (simp_all add: sys_two_poles_def)
  show ?thesis
    using two_poles_default_sweep [OF p z, of no_unwrap False False "[]"] p z by blast
qed

subsection \<open>The default range of \<open>nyquist\<close> and \<open>gangof4\<close>\<close>

text \<open>
  C2, as stated, fails.  With no \<open>omega\<close>, the first call of \<open>nyquist\<close> and of
  \<open>gangof4\<close> on the system with poles \<open>-1\<close> and \<open>-10\<close> is \<open>freqresp\<close> at
  \<open>logspace(-2, 2)\<close>, which is not the range that the pole/zero heuristic of \<open>bode\<close>
  gives for that system, taken once or twice.
\<close>

theorem nyquist_gangof4_default_counterexample:
  "hd (fst (nyquist sys_two_poles None [])) = Freqresp (logspace (-2) 2)
   \<and> hd (fst (gangof4 series_gain const_feedback sys_two_poles sys_two_poles None []))
       = Freqresp (logspace (-2) 2)
   \<and> logspace (-2) 2 \<noteq> default_omega [sys_two_poles]
   \<and> logspace (-2) 2 \<noteq> default_omega [sys_two_poles, sys_two_poles]"
proof -
  have d2: "default_omega [sys_two_poles, sys_two_poles] = logspace (-1) 2"
    by (simp add: default_omega_eq features_of_def sys_two_poles_def Let_def
          log10_double_1 log10_double_10)
  have n: "hd (fst (nyquist sys_two_poles None [])) = Freqresp (logspace (-2) 2)"
    by (simp add: nyquist_def sys_two_poles_def multiply_def length_logspace Let_def)
  have g: "hd (fst (gangof4 series_gain const_feedback sys_two_poles sys_two_poles None []))
       = Freqresp (logspace (-2) 2)"
    by (simp add: gangof4_def panel_def series_gain_def const_feedback_def gain_def
          sys_two_poles_def Let_def)
  show ?thesis using n g by (simp add: d2 default_omega_two_poles logspace_neq)
qed

text \<open>
  C2, amended.  With no \<open>omega\<close>, \<open>nyquist\<close> and \<open>gangof4\<close> behave as with the
  fixed range \<open>logspace(-2, 2)\<close>, 50 samples from \<open>0.01\<close> to \<open>100\<close>, whatever the
  poles and zeros of the systems are; \<open>nyquist\<close> queries its system once, at that
  range.
\<close>

theorem nyquist_gangof4_fixed_default_sweep:
  "nyquist sys None tr = nyquist sys (Some (logspace (-2) 2)) tr
   \<and> gangof4 mul feedback P C None tr = gangof4 mul feedback P C (Some (logspace (-2) 2)) tr
   \<and> queries (fst (nyquist sys None tr)) = queries tr @ [logspace (-2) 2]
   \<and> hd (logspace (-2) 2) = 1 / 100 \<and> last (logspace (-2) 2) = 100
   \<and> length (logspace (-2) 2) = 50"
proof -
  have a: "nyquist sys None tr = nyquist sys (Some (logspace (-2) 2)) tr"
    by (simp add: nyquist_def)
  have b: "gangof4 mul feedback P C None tr
             = gangof4 mul feedback P C (Some (logspace (-2) 2)) tr"
    by (simp add: gangof4_def)
  have c: "queries (fst (nyquist sys None tr)) = queries tr @ [logspace (-2) 2]"
    by (simp add: nyquist_queries)
  show ?thesis
    using a b c by (simp add: hd_logspace last_logspace length_logspace powr_m2)
qed

subsection \<open>The four panels of \<open>gangof4\<close>\<close>

lemma panel_ok:
  "freqresp g omega = Inr (mag, phase, omega1) \<Longrightarrow>
   panel (Inr g) code omega tr
     = (tr @ [Freqresp omega, Subplot code, Loglog omega1 mag], Inr omega1)"
  by (simp add: panel_def)

text \<open>
  The log of \<open>gangof4\<close>.  For systems \<open>P\<close> and \<open>C\<close> and the range \<open>omega\<close> in
  use (the caller's, or \<open>logspace(-2, 2)\<close>), with \<open>L = P*C\<close>, \<open>S\<close> what
  \<open>feedback(1, L)\<close> returns and \<open>T = L*S\<close>: when the products, \<open>feedback\<close> and the
  four frequency responses succeed, \<open>gangof4\<close> appends to the log, in this order, the
  magnitude of \<open>T\<close> on log-log axes in subplot 221, that of \<open>P*S\<close> in 222, that of
  \<open>C*S\<close> in 223 and that of \<open>S\<close> in 224, and returns nothing.  The codes are the
  top-left, top-right, bottom-left and bottom-right cells of a grid of two rows and two
  columns.  Each response is asked at the frequencies the one before returned.  With
  which sign \<open>feedback\<close> closes the loop is decided in \<open>bdalg\<close>, not here.
\<close>

lemma gangof4_panels:
  assumes "omega = (case omega_arg of None \<Rightarrow> logspace (-2) 2 | Some w \<Rightarrow> w)"
    and "mul P C = Inr L" and "feedback (Scalar 1) (Sys L) = Inr S" and "mul L S = Inr T"
    and "mul P S = Inr PS" and "mul C S = Inr CS"
    and "freqresp T omega = Inr (mag1, phase1, omega1)"
    and "freqresp PS omega1 = Inr (mag2, phase2, omega2)"
    and "freqresp CS omega2 = Inr (mag3, phase3, omega3)"
    and "freqresp S omega3 = Inr (mag4, phase4, omega4)"
  shows "gangof4 mul feedback P C omega_arg tr =
           (tr @ [Freqresp omega, Subplot 221, Loglog omega1 mag1,
                  Freqresp omega1, Subplot 222, Loglog omega2 mag2,
                  Freqresp omega2, Subplot 223, Loglog omega3 mag3,
                  Freqresp omega3, Subplot 224, Loglog omega4 mag4], Inr ())
       \<and> subplot_cell 221 = (2, 2, 0, 0) \<and> subplot_cell 222 = (2, 2, 0, 1)
       \<and> subplot_cell 223 = (2, 2, 1, 0) \<and> subplot_cell 224 = (2, 2, 1, 1)"
proof -
  have g: "gangof4 mul feedback P C omega_arg tr = gangof4 mul feedback P C (Some omega) tr"
    using assms(1) by (simp add: gangof4_def)
  show ?thesis unfolding g using assms(2-) by (simp add: gangof4_def panel_ok subplot_cell_def)
qed

text \<open>
  An example with the gains \<open>P = 2\<close> and \<open>C = 3\<close> and a stand-in for \<open>feedback\<close>
  that returns the gain \<open>1/7\<close>: the four curves are \<open>6/7\<close>, \<open>2/7\<close>, \<open>3/7\<close> and
  \<open>1/7\<close>.
\<close>

lemma gangof4_panels_example:
  "gangof4 series_gain const_feedback (gain 2) (gain 3) (Some [1]) [] =
       ([Freqresp [1], Subplot 221, Loglog [1] [6 / 7],
         Freqresp [1], Subplot 222, Loglog [1] [2 / 7],
         Freqresp [1], Subplot 223, Loglog [1] [3 / 7],
         Freqresp [1], Subplot 224, Loglog [1] [1 / 7]], Inr ())"
proof -
  have h0: "[1] = (case Some [1::real] of None \<Rightarrow> logspace (-2) 2 | Some w \<Rightarrow> w)" by simp
  have h1: "series_gain (gain 2) (gain 3) = Inr (gain 6)"
    by (simp add: series_gain_def gain_def)
  have h2: "const_feedback (Scalar 1) (Sys (gain 6)) = Inr (gain (1 / 7))"
    by (simp add: const_feedback_def)
  have h3: "series_gain (gain 6) (gain (1 / 7)) = Inr (gain (6 / 7))"
    by (simp add: series_gain_def gain_def)
  have h4: "series_gain (gain 2) (gain (1 / 7)) = Inr (gain (2 / 7))"
    by (simp add: series_gain_def gain_def)
  have h5: "series_gain (gain 3) (gain (1 / 7)) = Inr (gain (3 / 7))"
    by (simp add: series_gain_def gain_def)
  have r1: "freqresp (gain (6 / 7)) [1] = Inr ([6 / 7], [0], [1])" by (simp add: gain_def)
  have r2: "freqresp (gain (2 / 7)) [1] = Inr ([2 / 7], [0], [1])" by (simp add: gain_def)
  have r3: "freqresp (gain (3 / 7)) [1] = Inr ([3 / 7], [0], [1])" by (simp add: gain_def)
  have r4: "freqresp (gain (1 / 7)) [1] = Inr ([1 / 7], [0], [1])" by (simp add: gain_def)
  show ?thesis
    using gangof4_panels [where mul = series_gain and feedback = const_feedback
                            and tr = "[]", OF h0 h1 h2 h3 h4 h5 r1 r2 r3 r4]
    by simp
qed

subsection \<open>The curves of \<open>nyquist\<close>\<close>

lemma multiply_nth:
  assumes "multiply xs ys = Inr zs" and "i < length xs" and "i < length ys"
  shows "zs ! i = xs ! i * ys ! i"
proof -
  consider (eq) "length xs = length ys"
    | (left) "length xs \<noteq> length ys" "length xs = 1"
    | (right) "length xs \<noteq> length ys" "length xs \<noteq> 1" "length ys = 1"
    using assms(1) by (auto simp: multiply_def split: if_splits)
  then show ?thesis
  proof cases
    case eq
    with assms show ?thesis by (auto simp: multiply_def)
  next
    case left
    then obtain x where xs: "xs = [x]" by (cases xs) auto
    with assms left show ?thesis by (auto simp: multiply_def)
  next
    case right
    then obtain y where ys: "ys = [y]" by (cases ys) auto
    with assms right show ?thesis by (auto simp: multiply_def)
  qed
qed

lemma multiply_length:
  assumes "multiply xs ys = Inr zs"
  shows "length zs = (if length xs = 1 then length ys else length xs)"
  using assms by (auto simp: multiply_def split: if_splits)

text \<open>
  C6.  When \<open>nyquist\<close> completes, it has appended to the log the query and three
  \<open>plot\<close> calls: the primary curve \<open>(x, y)\<close> with a solid line, the mirror curve
  \<open>(x, -y)\<close> with a dashed line, and the marker at \<open>(-1, 0)\<close>.  At every index
  \<open>i\<close> of the magnitude and the phase, \<open>x\<^sub>i = mag\<^sub>i * cos phase\<^sub>i\<close> and
  \<open>y\<^sub>i = mag\<^sub>i * sin phase\<^sub>i\<close>; the mirror curve has the same \<open>x\<close>, and at
  every index the negated \<open>y\<close>.
\<close>

theorem nyquist_curves:
  assumes "omega = (case omega_arg of None \<Rightarrow> logspace (-2) 2 | Some w \<Rightarrow> w)"
    and "freqresp sys omega = Inr (mag, phase, omega1)"
    and "nyquist sys omega_arg tr = (tr1, Inr ())"
  shows "\<exists>x y. tr1 = tr @ [Freqresp omega, Plot x y ''-'', Plot x (map uminus y) ''--'',
                              Plot [-1] [0] ''+k'']
           \<and> length x = length y
           \<and> (\<forall>i. i < length mag \<and> i < length phase \<longrightarrow>
                  x ! i = mag ! i * cos (phase ! i) \<and> y ! i = mag ! i * sin (phase ! i))
           \<and> (\<forall>i < length y. map uminus y ! i = - (y ! i))"
proof -
  have n: "nyquist sys (Some omega) tr = (tr1, Inr ())"
    using assms(1,3) by (simp add: nyquist_def)
  from n assms(2) obtain x y where
    mx: "multiply mag (map cos phase) = Inr x" and my: "multiply mag (map sin phase) = Inr y"
    and tr1: "tr1 = tr @ [Freqresp omega, Plot x y ''-'', Plot x (map uminus y) ''--'',
                              Plot [-1] [0] ''+k'']"
    by (auto simp: nyquist_def split: sum.splits)
  have len: "length x = length y"
    using multiply_length [OF mx] multiply_length [OF my] by simp
  have pts: "\<forall>i. i < length mag \<and> i < length phase \<longrightarrow>
                  x ! i = mag ! i * cos (phase ! i) \<and> y ! i = mag ! i * sin (phase ! i)"
    using multiply_nth [OF mx] multiply_nth [OF my] by simp
  show ?thesis using tr1 len pts by simp
qed

text \<open>The theorem at the gain 2 and the frequencies 1 and 5, at the index 1.\<close>

theorem nyquist_curves_witness:
  "\<exists>x y. fst (nyquist (gain 2) (Some [1, 5]) [])
            = [Freqresp [1, 5], Plot x y ''-'', Plot x (map uminus y) ''--'',
               Plot [-1] [0] ''+k'']
        \<and> x ! 1 = 2 * cos 0 \<and> y ! 1 = 2 * sin 0 \<and> map uminus y ! 1 = - (y ! 1)"
proof -
  have o: "[1, 5] = (case Some [1, 5::real] of None \<Rightarrow> logspace (-2) 2 | Some w \<Rightarrow> w)"
    by simp
  have f: "freqresp (gain 2) [1, 5] = Inr ([2, 2], [0, 0], [1, 5])"
    by (simp add: gain_def)
  have n: "nyquist (gain 2) (Some [1, 5]) []
       = (fst (nyquist (gain 2) (Some [1, 5]) []), Inr ())"
    by (simp add: nyquist_def gain_def multiply_def)
  from nyquist_curves [OF o f n] obtain x y where
    t: "fst (nyquist (gain 2) (Some [1, 5]) [])
            = [] @ [Freqresp [1, 5], Plot x y ''-'', Plot x (map uminus y) ''--'',
               Plot [-1] [0] ''+k'']"
    and l: "length x = length y"
    and p: "\<forall>i. i < length [2, 2::real] \<and> i < length [0, 0::real] \<longrightarrow>
                  x ! i = [2, 2] ! i * cos ([0, 0] ! i) \<and> y ! i = [2, 2] ! i * sin ([0, 0] ! i)"
    and m: "\<forall>i < length y. map uminus y ! i = - (y ! i)"
    by blast
  from p have p1: "x ! 1 = 2 * cos 0 \<and> y ! 1 = 2 * sin 0" by simp
  have "length x = 2" using t by (auto simp: nyquist_def gain_def multiply_def)
  then have m1: "map uminus y ! 1 = - (y ! 1)" using m l by simp
  show ?thesis using t p1 m1 by auto
qed

subsection \<open>The decibel conversion of \<open>bode\<close>\<close>












subsection \<open>The frequencies each system is queried at\<close>

text \<open>
  C9 does not hold of the code.  With \<open>Hz\<close> set, two systems whose \<open>freqresp\<close>
  returns the frequencies it was given, and \<open>omega = [2 pi]\<close>, the first system is
  queried at \<open>[2 pi]\<close> and the second at \<open>[1]\<close>: the division by \<open>2 pi\<close> is
  assigned to \<open>omega\<close>, which the next pass hands to \<open>freqresp\<close>.
\<close>

theorem bode_Hz_rescales_later_queries:
  "queries (fst (bode no_unwrap (Collection [gain 1, gain 1]) (Some [2 * pi]) False True []))
     = [[2 * pi], [1]]"
  by (simp add: bode_def Let_def gain_def no_unwrap_def queries_append queries_bode_draw
        queries_Freqresp queries_Nil)

lemma plotted_freqs_append: "plotted_freqs (xs @ ys) = plotted_freqs xs @ plotted_freqs ys"
  by (simp add: plotted_freqs_def)

lemma plotted_freqs_Freqresp: "plotted_freqs (Freqresp w # tr) = plotted_freqs tr"
  by (simp add: plotted_freqs_def)

lemma plotted_freqs_Nil: "plotted_freqs [] = []"
  by (simp add: plotted_freqs_def)

text \<open>
  C8 does not hold of the code, by the same assignment.  With \<open>Hz\<close> set, two systems
  whose \<open>freqresp\<close> returns the frequencies it was given, and \<open>omega = [2 pi]\<close>, the
  two plots of the first system are drawn at \<open>[1]\<close>, those of the second system at
  \<open>[1 / (2 pi)]\<close>: the second system is queried at \<open>[1]\<close>, and what it returns is
  divided by \<open>2 pi\<close> once more.
\<close>

theorem bode_Hz_redraws_later_systems:
  "plotted_freqs
     (fst (bode no_unwrap (Collection [gain 1, gain 1]) (Some [2 * pi]) False True []))
     = [[1], [1], [1 / (2 * pi)], [1 / (2 * pi)]]"
  by (simp add: bode_def Let_def gain_def no_unwrap_def plotted_freqs_append
        plotted_freqs_bode_draw plotted_freqs_Freqresp plotted_freqs_Nil)

text \<open>
  In one pass under \<open>Hz\<close>, both plots are drawn over the frequencies that \<open>freqresp\<close>
  returned in that pass, divided by \<open>2 pi\<close>, and these are the frequencies the next
  pass starts from.
\<close>

lemma bode_pass_Hz:
  assumes "freqresp sys omega = Inr (mag, phase, omega1)"
    and "unwrap (map (\<lambda>p. p * 180 / pi) phase) 360 = Inr phase1"
    and "freqHz = map (\<lambda>w. w / (2 * pi)) omega1"
  shows "bode_loop unwrap (sys # rest) omega dB True tr
           = bode_loop unwrap rest freqHz dB True
               (tr @ Freqresp omega # bode_draw dB True freqHz mag phase1)
       \<and> plotted_freqs (bode_draw dB True freqHz mag phase1) = [freqHz, freqHz]"
  using assms by (simp add: Let_def plotted_freqs_bode_draw)

text \<open>
  Without \<open>Hz\<close>, and also under \<open>dB\<close>, such systems are all queried at the same
  frequencies.
\<close>

lemma bode_loop_queries_without_Hz:
  assumes "\<forall>sys \<in> set syslist. \<forall>w. \<exists>mag phase. freqresp sys w = Inr (mag, phase, w)"
  shows "set (queries (fst (bode_loop unwrap syslist omega dB False tr)))
           \<subseteq> set (queries tr) \<union> {omega}"
  using assms
proof (induction syslist arbitrary: tr)
  case Nil
  then show ?case by auto
next
  case (Cons sys rest)
  from Cons.prems obtain mag phase where f: "freqresp sys omega = Inr (mag, phase, omega)"
    by (meson list.set_intros(1))
  show ?case
  proof (cases "unwrap (map (\<lambda>p. p * 180 / pi) phase) 360")
    case (Inl e)
    then show ?thesis using f by (auto simp: queries_append queries_Freqresp queries_Nil)
  next
    case (Inr phase1)
    have "set (queries (fst (bode_loop unwrap rest omega dB False
                 (tr @ [Freqresp omega] @ bode_draw dB False omega mag phase1))))
           \<subseteq> set (queries (tr @ [Freqresp omega] @ bode_draw dB False omega mag phase1))
               \<union> {omega}"
      using Cons.IH Cons.prems by simp
    then show ?thesis using f Inr
      by (auto simp: queries_append queries_Freqresp queries_bode_draw queries_Nil)
  qed
qed

subsection \<open>The result of \<open>bode\<close>\<close>

text \<open>
  C10.  Whenever \<open>bode\<close> completes, it returns the pair \<open>(211, 212)\<close>, whatever the
  systems, the range and the flags are.
\<close>

theorem bode_returns_subplot_codes:
  "bode unwrap syslist omega dB Hz tr = (tr1, Inr r) \<Longrightarrow> r = (211, 212)"
  by (auto simp: bode_def Let_def split: prod.splits sum.splits)

text \<open>
  The theorem at a gain and an integrator, with no \<open>omega\<close> and both flags set:
  \<open>bode\<close> completes.
\<close>

theorem bode_returns_subplot_codes_witness:
  "snd (bode no_unwrap (Collection [gain 2, integrator]) None True True [])
     = Inr (211, 212)"
proof -
  obtain tr1 res
    where e: "bode no_unwrap (Collection [gain 2, integrator]) None True True [] = (tr1, res)"
    by (cases "bode no_unwrap (Collection [gain 2, integrator]) None True True []")
  have "\<exists>r. res = Inr r" using e
    by (auto simp: bode_def Let_def gain_def integrator_def no_unwrap_def
             split: prod.splits sum.splits)
  then obtain r where r: "res = Inr r" by blast
  have "r = (211, 212)"
    using bode_returns_subplot_codes [of no_unwrap "Collection [gain 2, integrator]" None
            True True "[]" tr1 r] e r by simp
  then show ?thesis using e r by simp
qed

end
